theory Spec2Isabelle
  imports Main "HOL-Library.List_Lexorder" "HOL-Library.Char_ord"
begin

section \<open>Python values, errors and strings\<close>

text \<open>
  The exceptions that the modelled functions can let escape. A function that can raise
  returns a sum: \<open>Inl e\<close> is the exception, \<open>Inr v\<close> the value returned.
\<close>

datatype error =
    TypeError | KeyError | AttributeError | FileNotFoundError | NotADirectoryError

text \<open>
  A value stored under a key of an article, a saved link or a search hit: a string, or
  Python's \<open>None\<close>. A dict is an association list, read with \<open>dict.get\<close>.
\<close>

datatype pyval = PNone | PStr string

type_synonym pydict = "(string \<times> pyval) list"

text \<open>\<open>d.get(k)\<close>: \<open>None\<close> for a missing key.\<close>

definition dict_get :: "pydict \<Rightarrow> string \<Rightarrow> pyval" where
  "dict_get d k = (case map_of d k of None \<Rightarrow> PNone | Some v \<Rightarrow> v)"

text \<open>\<open>d.get(k, default)\<close>: the default only for a missing key, not for a stored \<open>None\<close>.\<close>

definition dict_get_default :: "pydict \<Rightarrow> string \<Rightarrow> pyval \<Rightarrow> pyval" where
  "dict_get_default d k dflt = (case map_of d k of None \<Rightarrow> dflt | Some v \<Rightarrow> v)"

text \<open>Truth value of a Python object: \<open>None\<close> and the empty string are false.\<close>

fun truthy :: "pyval \<Rightarrow> bool" where
  "truthy PNone = False"
| "truthy (PStr s) = (s \<noteq> [])"

text \<open>\<open>str(v)\<close>, as an f-string formats a value.\<close>

fun py_str :: "pyval \<Rightarrow> string" where
  "py_str PNone = ''None''"
| "py_str (PStr s) = s"

text \<open>\<open>sep.join(xs)\<close>.\<close>

fun join :: "string \<Rightarrow> string list \<Rightarrow> string" where
  "join sep [] = []"
| "join sep [x] = x"
| "join sep (x # y # ys) = x @ sep @ join sep (y # ys)"

definition nl :: string where
  "nl = [CHR 0x0A]"

text \<open>
  \<open>needle in haystack\<close> on strings: the needle occurs as a contiguous run of the
  haystack. The empty string occurs in every string.
\<close>

fun starts_with :: "string \<Rightarrow> string \<Rightarrow> bool" where
  "starts_with [] ys = True"
| "starts_with (x # xs) [] = False"
| "starts_with (x # xs) (y # ys) = (x = y \<and> starts_with xs ys)"

fun str_in :: "string \<Rightarrow> string \<Rightarrow> bool" where
  "str_in xs [] = (xs = [])"
| "str_in xs (y # ys) = (starts_with xs (y # ys) \<or> str_in xs ys)"

text \<open>
  \<open>str.lower()\<close> and \<open>str.strip()\<close>, on ASCII text: the letters A to Z are
  lowered, and the characters Python counts as ASCII white space (tab to carriage
  return, the four separators 0x1C to 0x1F, and the blank) are stripped from both ends.
  Characters beyond ASCII are left as they are.
\<close>

definition lower_char :: "char \<Rightarrow> char" where
  "lower_char c =
     (case map_of (zip ''ABCDEFGHIJKLMNOPQRSTUVWXYZ'' ''abcdefghijklmnopqrstuvwxyz'') c of
        None \<Rightarrow> c
      | Some l \<Rightarrow> l)"

definition lower :: "string \<Rightarrow> string" where
  "lower s = map lower_char s"

definition is_space :: "char \<Rightarrow> bool" where
  "is_space c =
     (c \<in> set [CHR 0x09, CHR 0x0A, CHR 0x0B, CHR 0x0C, CHR 0x0D,
                CHR 0x1C, CHR 0x1D, CHR 0x1E, CHR 0x1F, CHR 0x20])"

definition strip :: "string \<Rightarrow> string" where
  "strip s = rev (dropWhile is_space (rev (dropWhile is_space s)))"

text \<open>Decimal digits of a natural number, as \<open>str(n)\<close> prints it.\<close>

fun str_of_nat :: "nat \<Rightarrow> string" where
  "str_of_nat n =
     (if n < 10 then [''0123456789'' ! n]
      else str_of_nat (n div 10) @ [''0123456789'' ! (n mod 10)])"

declare str_of_nat.simps [simp del]

section \<open>Messages and the message trimmer (agents/base.py)\<close>

text \<open>
  The three kinds of message the code tells apart with \<open>isinstance\<close>. An assistant
  message carries its content and the ids of the tool calls it requests; a tool message
  carries its content and the id of the call it answers.
\<close>

datatype message =
    HumanMessage string
  | AIMessage string "string list"
  | ToolMessage string string

fun is_ai :: "message \<Rightarrow> bool" where
  "is_ai (AIMessage c tcs) = True"
| "is_ai m = False"

fun content :: "message \<Rightarrow> string" where
  "content (HumanMessage c) = c"
| "content (AIMessage c tcs) = c"
| "content (ToolMessage c i) = c"

definition MAX_MESSAGES :: nat where
  "MAX_MESSAGES = 16"

text \<open>
  The slice \<open>xs[-n:]\<close> for a positive \<open>n\<close>: the last \<open>n\<close> elements, and the whole
  list when it is shorter than \<open>n\<close>.
\<close>

definition slice_last :: "nat \<Rightarrow> 'a list \<Rightarrow> 'a list" where
  "slice_last n xs = drop (length xs - n) xs"

text \<open>
  \<open>trim_messages(state, runtime)\<close> reads \<open>state["messages"]\<close> (a required key of the
  agent state) and returns either \<open>None\<close>, for no change, or the update
  \<open>{"messages": messages[-MAX_MESSAGES:]}\<close>, here the list under that one key. It
  is a \<open>before_model\<close> hook of the agent: what it returns is an update of the agent's
  state, which the state's message channel takes through its reducer.
\<close>

definition trim_messages :: "message list \<Rightarrow> message list option" where
  "trim_messages messages =
     (if length messages \<le> MAX_MESSAGES then None
      else Some (slice_last MAX_MESSAGES messages))"

section \<open>The topic store (tools/topic_tools.py, agents/content_scout.py)\<close>

text \<open>
  The topics directory as \<open>iterdir\<close> lists it: named entries, each a regular file or
  a directory. A topic's directory may hold \<open>preferences.md\<close> (its text),
  \<open>links.yaml\<close> (the saved links, a list of dicts) and other files; \<open>None\<close> is a
  file that does not exist. Names in one directory are unique.
\<close>

record topic_dir =
  preferences_md :: "string option"
  links_yaml :: "pydict list option"
  other_files :: "string list"

datatype entry = RegularFile | Directory topic_dir

type_synonym store = "(string \<times> entry) list"

text \<open>\<open>path.is_dir()\<close> and \<open>(path / "preferences.md").exists()\<close>.\<close>

fun is_dir :: "entry \<Rightarrow> bool" where
  "is_dir RegularFile = False"
| "is_dir (Directory d) = True"

fun has_preferences :: "entry \<Rightarrow> bool" where
  "has_preferences RegularFile = False"
| "has_preferences (Directory d) = (preferences_md d \<noteq> None)"

text \<open>
  \<open>get_topic_slugs\<close> of topic_tools.py and \<open>_get_available_topics\<close> of
  content_scout.py are the same loop: collect the names of the entries that are
  directories with a preferences document, and sort them. Python sorts strings by code
  point, a proper prefix first: the lexicographic order on character lists.
\<close>

definition get_topic_slugs :: "store \<Rightarrow> string list" where
  "get_topic_slugs topics_dir =
     sort (map fst (filter (\<lambda>(name, path). is_dir path \<and> has_preferences path) topics_dir))"

definition get_available_topics :: "store \<Rightarrow> string list" where
  "get_available_topics topics_dir =
     sort (map fst (filter (\<lambda>(name, path). is_dir path \<and> has_preferences path) topics_dir))"

text \<open>
  \<open>TOPICS_DIR / topic_slug\<close>: joining a path with \<open>None\<close> raises TypeError. A slug
  is looked up as the name of an entry of the topics directory; the empty slug, with
  which the path is the topics directory itself, is not told apart from a name that has
  no entry.
\<close>

fun topics_path :: "pyval \<Rightarrow> error + string" where
  "topics_path PNone = Inl TypeError"
| "topics_path (PStr name) = Inr name"

definition find_dir :: "store \<Rightarrow> string \<Rightarrow> topic_dir option" where
  "find_dir topics_dir name =
     (case map_of topics_dir name of
        None \<Rightarrow> None
      | Some RegularFile \<Rightarrow> None
      | Some (Directory d) \<Rightarrow> Some d)"

text \<open>The links file of a topic, when it exists: \<open>yaml.safe_load(f) or []\<close>.\<close>

definition read_links :: "store \<Rightarrow> string \<Rightarrow> pydict list option" where
  "read_links topics_dir name =
     (case find_dir topics_dir name of None \<Rightarrow> None | Some d \<Rightarrow> links_yaml d)"

text \<open>What \<open>_save_articles\<close> loads: the links of the file, or none without a file.\<close>

definition load_existing :: "store \<Rightarrow> string \<Rightarrow> pydict list" where
  "load_existing topics_dir name =
     (case read_links topics_dir name of None \<Rightarrow> [] | Some links \<Rightarrow> links)"

text \<open>
  \<open>open(links_file, "w")\<close> followed by \<open>yaml.dump\<close>: the file is replaced by the
  whole list. Opening fails when the topic's directory is missing or is a file.
\<close>

fun write_entry :: "string \<Rightarrow> pydict list \<Rightarrow> store \<Rightarrow> store" where
  "write_entry name links [] = []"
| "write_entry name links ((n, e) # rest) =
     (if n = name
      then (case e of
              RegularFile \<Rightarrow> (n, e) # rest
            | Directory d \<Rightarrow> (n, Directory (d\<lparr>links_yaml := Some links\<rparr>)) # rest)
      else (n, e) # write_entry name links rest)"

definition write_links :: "store \<Rightarrow> string \<Rightarrow> pydict list \<Rightarrow> error + store" where
  "write_links topics_dir name links =
     (case map_of topics_dir name of
        None \<Rightarrow> Inl FileNotFoundError
      | Some RegularFile \<Rightarrow> Inl NotADirectoryError
      | Some (Directory d) \<Rightarrow> Inr (write_entry name links topics_dir))"

section \<open>The Content Scout pipeline (agents/content_scout.py)\<close>

text \<open>
  The state of the subgraph. Every key is optional (\<open>NotRequired\<close>): \<open>None\<close> is a
  missing key, read with \<open>state.get(key, default)\<close>; a key that is present can hold
  Python's \<open>None\<close>. A node returns an update that replaces the keys it names.
\<close>

record scout_state =
  task :: "pyval option"
  topic_slug :: "pyval option"
  preferences :: "string option"
  saved_urls :: "pyval list option"
  recommended :: "pydict list option"
  summary :: "string option"

text \<open>\<open>state.get(key, default)\<close>.\<close>

definition state_get :: "'a option \<Rightarrow> 'a \<Rightarrow> 'a" where
  "state_get field dflt = (case field of None \<Rightarrow> dflt | Some v \<Rightarrow> v)"

text \<open>The structured reply of the model in topic resolution.\<close>

record TopicResolution =
  slug :: "string option"
  confidence :: string
  reason :: string

text \<open>
  How a node or a graph run ends: suspended at an \<open>interrupt\<close> with its question, by
  an exception that escapes, or with a value.
\<close>

datatype 'a run = Interrupted string | Raised error | Returned 'a

text \<open>\<open>result.slug in available_topics\<close> and the truth value of \<open>result.slug\<close>.\<close>

fun slug_known :: "string option \<Rightarrow> string list \<Rightarrow> bool" where
  "slug_known None available_topics = False"
| "slug_known (Some s) available_topics = (s \<in> set available_topics)"

fun slug_truthy :: "string option \<Rightarrow> bool" where
  "slug_truthy None = False"
| "slug_truthy (Some s) = (s \<noteq> [])"

fun slug_value :: "string option \<Rightarrow> pyval" where
  "slug_value None = PNone"
| "slug_value (Some s) = PStr s"

text \<open>The loop over the available topics: the first topic that matches is returned.\<close>

fun first_match :: "string \<Rightarrow> string list \<Rightarrow> string option" where
  "first_match response_lower [] = None"
| "first_match response_lower (topic # rest) =
     (if response_lower = topic \<or> str_in response_lower topic \<or> str_in topic response_lower
      then Some topic
      else first_match response_lower rest)"

text \<open>What \<open>_resolve_topic\<close> does with the user's reply, after its second interrupt.\<close>

definition process_response :: "TopicResolution \<Rightarrow> string list \<Rightarrow> string \<Rightarrow> pyval" where
  "process_response result available_topics response =
     (let response_lower = strip (lower response) in
      if (response_lower = ''yes'' \<or> response_lower = ''y'') \<and> slug_truthy (slug result)
      then slug_value (slug result)
      else (case first_match response_lower available_topics of
              Some topic \<Rightarrow> PStr topic
            | None \<Rightarrow> PNone))"

definition no_topics_question :: string where
  "no_topics_question =
     ''No topics found. Please create a topic first using the topic manager.''"

definition clarifying_question :: "TopicResolution \<Rightarrow> string list \<Rightarrow> string" where
  "clarifying_question result available_topics =
     (if slug_truthy (slug result) \<and> slug_known (slug result) available_topics
      then ''Did you mean the '' @ [CHR 0x27] @ py_str (slug_value (slug result)) @ [CHR 0x27]
           @ '' topic? (yes/no, or type a different topic name)''
      else ''Which topic? Available: '' @ join '', '' available_topics)"

text \<open>
  \<open>_resolve_topic\<close>. The model is a parameter: a function of the task, the hint and
  the available topics, which is all the prompt is built from. \<open>resume\<close> is the value
  \<open>interrupt\<close> hands back: \<open>None\<close> on the first run, where \<open>interrupt\<close> suspends the
  graph, and the user's reply when the graph is resumed and the node runs again. The
  value returned is the one of the update \<open>{"topic_slug": ...}\<close>.
\<close>

definition resolve_topic ::
  "store \<Rightarrow> (pyval \<Rightarrow> pyval \<Rightarrow> string list \<Rightarrow> TopicResolution) \<Rightarrow> scout_state
    \<Rightarrow> string option \<Rightarrow> pyval run" where
  "resolve_topic topics_dir model state resume =
     (let task_text = state_get (task state) (PStr '''');
          topic_hint = state_get (topic_slug state) (PStr '''');
          available_topics = get_available_topics topics_dir
      in if available_topics = []
         then (case resume of
                 None \<Rightarrow> Interrupted no_topics_question
               | Some response \<Rightarrow> Returned PNone)
         else
           (let result = model task_text topic_hint available_topics
            in if confidence result = ''high'' \<and> slug_known (slug result) available_topics
               then Returned (slug_value (slug result))
               else (case resume of
                       None \<Rightarrow> Interrupted (clarifying_question result available_topics)
                     | Some response \<Rightarrow>
                         Returned (process_response result available_topics response))))"

text \<open>\<open>[link["url"] for link in links]\<close>: a link without the key raises KeyError.\<close>

fun link_urls :: "pydict list \<Rightarrow> error + pyval list" where
  "link_urls [] = Inr []"
| "link_urls (link # rest) =
     (case map_of link ''url'' of
        None \<Rightarrow> Inl KeyError
      | Some u \<Rightarrow> (case link_urls rest of Inl e \<Rightarrow> Inl e | Inr us \<Rightarrow> Inr (u # us)))"

text \<open>\<open>_load_context\<close>: the update \<open>{"preferences": ..., "saved_urls": ...}\<close>.\<close>

definition load_context :: "store \<Rightarrow> scout_state \<Rightarrow> error + (string \<times> pyval list)" where
  "load_context topics_dir state =
     (case topics_path (state_get (topic_slug state) (PStr '''')) of
        Inl e \<Rightarrow> Inl e
      | Inr name \<Rightarrow>
          (let prefs = (case find_dir topics_dir name of
                          None \<Rightarrow> ''No preferences found.''
                        | Some d \<Rightarrow>
                            (case preferences_md d of
                               None \<Rightarrow> ''No preferences found.''
                             | Some body \<Rightarrow> body))
           in case read_links topics_dir name of
                None \<Rightarrow> Inr (prefs, [])
              | Some links \<Rightarrow>
                  (case link_urls links of
                     Inl e \<Rightarrow> Inl e
                   | Inr urls \<Rightarrow> Inr (prefs, urls))))"

text \<open>The entry \<open>_save_articles\<close> appends for an article, stamped with the date.\<close>

definition new_link :: "string \<Rightarrow> pydict \<Rightarrow> pydict" where
  "new_link today article =
     [(''title'', dict_get_default article ''title'' (PStr ''Untitled'')),
      (''url'', dict_get_default article ''url'' (PStr '''')),
      (''reason'', dict_get_default article ''reason'' (PStr '''')),
      (''date'', PStr today)]"

text \<open>
  The loop of \<open>_save_articles\<close> over the recommended articles. \<open>existing_urls\<close> is
  the set computed before the loop; the loop extends \<open>existing\<close> and counts.
\<close>

fun add_new ::
  "string \<Rightarrow> pyval set \<Rightarrow> pydict list \<Rightarrow> pydict list \<Rightarrow> nat \<Rightarrow> pydict list \<times> nat" where
  "add_new today existing_urls [] existing saved_count = (existing, saved_count)"
| "add_new today existing_urls (article # rest) existing saved_count =
     (let url = dict_get_default article ''url'' (PStr '''')
      in if truthy url \<and> url \<notin> existing_urls
         then add_new today existing_urls rest (existing @ [new_link today article])
                (saved_count + 1)
         else add_new today existing_urls rest existing saved_count)"

text \<open>
  The three characters that stand before each URL in the summary lines, as the source
  file holds them (U+00E2, U+2020, U+2019), in UTF-8.
\<close>

definition arrow :: string where
  "arrow = [CHR 0xC3, CHR 0xA2, CHR 0xE2, CHR 0x80, CHR 0xA0, CHR 0xE2, CHR 0x80, CHR 0x99]"

text \<open>
  \<open>_save_articles\<close>: the update \<open>{"summary": ...}\<close> and the store it leaves. \<open>today\<close>
  is \<open>date.today().isoformat()\<close>.
\<close>

definition save_articles ::
  "string \<Rightarrow> store \<Rightarrow> scout_state \<Rightarrow> error + (string \<times> store)" where
  "save_articles today topics_dir state =
     (let slug_v = state_get (topic_slug state) (PStr '''');
          recs = state_get (recommended state) []
      in if recs = []
         then Inr (state_get (summary state) ''No articles found to save.'', topics_dir)
         else
           (case topics_path slug_v of
              Inl e \<Rightarrow> Inl e
            | Inr name \<Rightarrow>
                (let loaded = load_existing topics_dir name;
                     existing_urls = set (map (\<lambda>link. dict_get link ''url'') loaded);
                     (existing, saved_count) = add_new today existing_urls recs loaded 0;
                     original_summary = state_get (summary state) ''''
                 in if saved_count > 0
                    then
                      (case write_links topics_dir name existing of
                         Inl e \<Rightarrow> Inl e
                       | Inr written \<Rightarrow>
                           (let listed = take saved_count
                                  (filter (\<lambda>u. u \<notin> existing_urls)
                                     (map (\<lambda>a. dict_get a ''url'') recs));
                                urls_text =
                                  join nl (map (\<lambda>u. ''  '' @ arrow @ '' '' @ py_str u) listed)
                            in Inr (original_summary @ nl @ nl @ ''Saved to '' @ py_str slug_v
                                      @ '':'' @ nl @ urls_text, written)))
                    else Inr (original_summary @ nl @ nl
                                @ ''No new articles to save (duplicates filtered).'',
                              topics_dir))))"

text \<open>
  The compiled subgraph: resolve_topic, load_context, search_evaluate, save_articles, in
  a line. The search stage runs a language-model agent with the search tool; the graph
  takes it as a parameter, a function of the state that raises or returns the update
  \<open>{"recommended": ..., "summary": ...}\<close>. The run ends suspended, by the first
  exception, or with the final state and the store.
\<close>

definition scout_graph ::
  "string \<Rightarrow> store \<Rightarrow> (pyval \<Rightarrow> pyval \<Rightarrow> string list \<Rightarrow> TopicResolution)
    \<Rightarrow> (scout_state \<Rightarrow> error + (pydict list \<times> string))
    \<Rightarrow> scout_state \<Rightarrow> string option \<Rightarrow> (scout_state \<times> store) run" where
  "scout_graph today topics_dir model search_evaluate state resume =
     (case resolve_topic topics_dir model state resume of
        Interrupted question \<Rightarrow> Interrupted question
      | Raised e \<Rightarrow> Raised e
      | Returned resolved \<Rightarrow>
          (let s1 = state\<lparr>topic_slug := Some resolved\<rparr>
           in case load_context topics_dir s1 of
                Inl e \<Rightarrow> Raised e
              | Inr (prefs, urls) \<Rightarrow>
                  (let s2 = s1\<lparr>preferences := Some prefs, saved_urls := Some urls\<rparr>
                   in case search_evaluate s2 of
                        Inl e \<Rightarrow> Raised e
                      | Inr (recs, found) \<Rightarrow>
                          (let s3 = s2\<lparr>recommended := Some recs, summary := Some found\<rparr>
                           in case save_articles today topics_dir s3 of
                                Inl e \<Rightarrow> Raised e
                              | Inr (final, written) \<Rightarrow>
                                  Returned (s3\<lparr>summary := Some final\<rparr>, written)))))"

section \<open>Extraction of the recommendations (agents/content_scout.py, \<open>_search_evaluate\<close>)\<close>

text \<open>
  What \<open>json.loads\<close> returns. Numbers are integers here; an object is a dict, read
  with \<open>get\<close>.
\<close>

datatype json =
    JNull
  | JBool bool
  | JNumber int
  | JString string
  | JArray "json list"
  | JObject "(string \<times> json) list"

definition json_get :: "(string \<times> json) list \<Rightarrow> string \<Rightarrow> json \<Rightarrow> json" where
  "json_get d k dflt = (case map_of d k of None \<Rightarrow> dflt | Some v \<Rightarrow> v)"

text \<open>
  The body of the \<open>try\<close> on the reply's content, and its \<open>except json.JSONDecodeError\<close>.
  The two library calls are parameters: \<open>re_search\<close> is
  \<open>re.search(r"```json\s*(.*?)\s*```", content, re.DOTALL)\<close>, giving group 1 of the
  match or \<open>None\<close>; \<open>json_loads\<close> is \<open>json.loads\<close>, with \<open>None\<close> for
  JSONDecodeError. \<open>data.get\<close> exists on a dict only: on any other value the
  attribute lookup raises AttributeError, which the handler does not catch. The result
  is the pair (recommended, summary).
\<close>

definition parse_reply ::
  "(string \<Rightarrow> string option) \<Rightarrow> (string \<Rightarrow> json option) \<Rightarrow> string
    \<Rightarrow> error + (json \<times> json)" where
  "parse_reply re_search json_loads reply =
     (case (case re_search reply of
              Some group1 \<Rightarrow> json_loads group1
            | None \<Rightarrow> json_loads reply) of
        None \<Rightarrow> Inr (JArray [], JString (take 500 reply))
      | Some data \<Rightarrow>
          (case data of
             JObject d \<Rightarrow>
               Inr (json_get d ''articles'' (JArray []),
                    json_get d ''summary'' (JString ''Found articles.''))
           | _ \<Rightarrow> Inl AttributeError))"

text \<open>
  The loop over the agent's messages, newest first: the first assistant message with
  content is parsed, and the loop ends there.
\<close>

definition extract_recommendations ::
  "(string \<Rightarrow> string option) \<Rightarrow> (string \<Rightarrow> json option) \<Rightarrow> message list
    \<Rightarrow> error + (json \<times> json)" where
  "extract_recommendations re_search json_loads messages =
     (case find (\<lambda>msg. is_ai msg \<and> content msg \<noteq> []) (rev messages) of
        None \<Rightarrow> Inr (JArray [], JString ''No articles found.'')
      | Some msg \<Rightarrow> parse_reply re_search json_loads (content msg))"

section \<open>Handoffs (tools/handoff_tools.py, \<open>ContentScout.invoke\<close>, core/graph.py)\<close>

text \<open>The state of the outer graph; the two extra keys are optional.\<close>

record multi_agent_state =
  messages :: "message list"
  active_agent :: "string option"
  topic_context :: "pydict option"

text \<open>
  The update a handoff carries to the outer graph, and the \<open>Command\<close> around it. The
  outer graph's message channel adds the update's messages to the history.
\<close>

record state_update =
  upd_active_agent :: string
  upd_messages :: "message list"
  upd_topic_context :: pydict

record command =
  goto :: string
  update :: state_update
  graph :: string

text \<open>What a handoff tool reads of its runtime: the messages and the tool call's id.\<close>

record tool_runtime =
  state_messages :: "message list"
  tool_call_id :: string

text \<open>
  \<open>next((msg for msg in reversed(messages) if isinstance(msg, AIMessage)), None)\<close>
  and the list \<open>[last_ai_message, transfer_message] if last_ai_message else
  [transfer_message]\<close>.
\<close>

definition last_ai_message :: "message list \<Rightarrow> message option" where
  "last_ai_message msgs = find is_ai (rev msgs)"

definition handoff_messages :: "tool_runtime \<Rightarrow> message \<Rightarrow> message list" where
  "handoff_messages runtime transfer_message =
     (case last_ai_message (state_messages runtime) of
        Some ai \<Rightarrow> [ai, transfer_message]
      | None \<Rightarrow> [transfer_message])"

definition PARENT :: string where
  "PARENT = ''__parent__''"

definition handoff_to_topics :: "string \<Rightarrow> tool_runtime \<Rightarrow> command" where
  "handoff_to_topics task_text runtime =
     \<lparr>goto = ''agent'',
      update = \<lparr>upd_active_agent = ''topic_manager'',
                upd_messages = handoff_messages runtime
                  (ToolMessage (''Transferring to TopicManager: '' @ task_text)
                     (tool_call_id runtime)),
                upd_topic_context = [(''task'', PStr task_text)]\<rparr>,
      graph = PARENT\<rparr>"

definition handoff_to_scout :: "string \<Rightarrow> string \<Rightarrow> tool_runtime \<Rightarrow> command" where
  "handoff_to_scout task_text slug_text runtime =
     \<lparr>goto = ''agent'',
      update = \<lparr>upd_active_agent = ''content_scout'',
                upd_messages = handoff_messages runtime
                  (ToolMessage (''Transferring to ContentScout: '' @ task_text @ '' (topic: ''
                                  @ slug_text @ '')'')
                     (tool_call_id runtime)),
                upd_topic_context = [(''task'', PStr task_text), (''topic_slug'', PStr slug_text)]\<rparr>,
      graph = PARENT\<rparr>"

definition handoff_to_supervisor :: "string \<Rightarrow> tool_runtime \<Rightarrow> command" where
  "handoff_to_supervisor summary_text runtime =
     \<lparr>goto = ''agent'',
      update = \<lparr>upd_active_agent = ''supervisor'',
                upd_messages = handoff_messages runtime
                  (ToolMessage (''TopicManager completed: '' @ summary_text)
                     (tool_call_id runtime)),
                upd_topic_context = []\<rparr>,
      graph = PARENT\<rparr>"

text \<open>
  \<open>ContentScout.invoke\<close>: run the subgraph on the task and the slug of the handoff's
  context, and hand back to the supervisor with the summary as an assistant message.
\<close>

definition content_scout_invoke ::
  "string \<Rightarrow> store \<Rightarrow> (pyval \<Rightarrow> pyval \<Rightarrow> string list \<Rightarrow> TopicResolution)
    \<Rightarrow> (scout_state \<Rightarrow> error + (pydict list \<times> string))
    \<Rightarrow> multi_agent_state \<Rightarrow> string option \<Rightarrow> (state_update \<times> store) run" where
  "content_scout_invoke today topics_dir model search_evaluate state resume =
     (let context = state_get (topic_context state) [];
          task_v = dict_get_default context ''task'' (PStr ''Find relevant content'');
          slug_v = dict_get_default context ''topic_slug'' (PStr '''')
      in case scout_graph today topics_dir model search_evaluate
                \<lparr>task = Some task_v, topic_slug = Some slug_v, preferences = None,
                 saved_urls = None, recommended = None, summary = None\<rparr> resume of
           Interrupted question \<Rightarrow> Interrupted question
         | Raised e \<Rightarrow> Raised e
         | Returned (result, written) \<Rightarrow>
             Returned (\<lparr>upd_active_agent = ''supervisor'',
                        upd_messages =
                          [AIMessage (state_get (summary result) ''Scout completed.'') []],
                        upd_topic_context = []\<rparr>, written))"

text \<open>
  How the outer graph takes an update: \<open>active_agent\<close> and \<open>topic_context\<close> are
  replaced, and the messages go through the channel's reducer, \<open>add_messages\<close> of the
  graph library, here a parameter.
\<close>

definition apply_update ::
  "(message list \<Rightarrow> message list \<Rightarrow> message list) \<Rightarrow> multi_agent_state \<Rightarrow> state_update
    \<Rightarrow> multi_agent_state" where
  "apply_update add_messages state upd =
     \<lparr>messages = add_messages (messages state) (upd_messages upd),
      active_agent = Some (upd_active_agent upd),
      topic_context = Some (upd_topic_context upd)\<rparr>"

text \<open>The names the outer graph's registry of agents knows (\<open>_get_agents\<close>).\<close>

definition agent_names :: "string list" where
  "agent_names = [''supervisor'', ''topic_manager'', ''content_scout'']"

section \<open>The web search tool (tools/tavily_tools.py)\<close>

text \<open>
  An entry of \<open>results\<close>: the block of a search hit, made of its title, the domain
  of its URL, the URL and the snippet, or the line of a failed query, made of the query
  and the exception's text.
\<close>

datatype block = Hit string string string string | Failure string string

fun render :: "block \<Rightarrow> string" where
  "render (Hit title domain url snippet) =
     ''**'' @ title @ ''**'' @ nl @ ''Source: '' @ domain @ nl @ ''URL: '' @ url @ nl
       @ snippet @ ''...''"
| "render (Failure query text) =
     ''Search failed for '' @ [CHR 0x27] @ query @ [CHR 0x27] @ '': '' @ text"

fun hit_urls :: "block list \<Rightarrow> string list" where
  "hit_urls [] = []"
| "hit_urls (Hit title domain url snippet # rest) = url # hit_urls rest"
| "hit_urls (Failure query text # rest) = hit_urls rest"

definition not_subscriptable :: string where
  "not_subscriptable = [CHR 0x27] @ ''NoneType'' @ [CHR 0x27] @ '' object is not subscriptable''"

text \<open>
  The inner loop over the hits of one query, inside the \<open>try\<close>. \<open>netloc\<close> is
  \<open>urlparse(url).netloc\<close>, which raises on a malformed URL (\<open>Inl\<close> the exception's
  text); slicing a content of \<open>None\<close> raises too. The loop returns the set of seen
  URLs, the results, and the text of the exception that ended it, if one did.
\<close>

fun scan_hits ::
  "(string \<Rightarrow> string + string) \<Rightarrow> pydict list \<Rightarrow> string set \<Rightarrow> block list
    \<Rightarrow> string set \<times> block list \<times> string option" where
  "scan_hits netloc [] seen_urls results = (seen_urls, results, None)"
| "scan_hits netloc (r # rest) seen_urls results =
     (case dict_get r ''url'' of
        PNone \<Rightarrow> scan_hits netloc rest seen_urls results
      | PStr url \<Rightarrow>
          if url \<noteq> [] \<and> url \<notin> seen_urls
          then (case netloc url of
                  Inl text \<Rightarrow> (insert url seen_urls, results, Some text)
                | Inr domain \<Rightarrow>
                    (case dict_get_default r ''content'' (PStr '''') of
                       PNone \<Rightarrow> (insert url seen_urls, results, Some not_subscriptable)
                     | PStr body \<Rightarrow>
                         scan_hits netloc rest (insert url seen_urls)
                           (results @ [Hit (py_str (dict_get_default r ''title'' (PStr ''No title'')))
                                        domain url (take 300 body)])))
          else scan_hits netloc rest seen_urls results)"

text \<open>
  The loop over the queries. \<open>tavily\<close> is the search service: for a query it raises
  (\<open>Inl\<close> the exception's text) or returns the list \<open>resp.get("results", [])\<close>.
\<close>

fun search_all ::
  "(string \<Rightarrow> string + pydict list) \<Rightarrow> (string \<Rightarrow> string + string) \<Rightarrow> string list
    \<Rightarrow> string set \<Rightarrow> block list \<Rightarrow> block list" where
  "search_all tavily netloc [] seen_urls results = results"
| "search_all tavily netloc (query # rest) seen_urls results =
     (case tavily query of
        Inl text \<Rightarrow> search_all tavily netloc rest seen_urls (results @ [Failure query text])
      | Inr hits \<Rightarrow>
          (case scan_hits netloc hits seen_urls results of
             (seen', results', None) \<Rightarrow> search_all tavily netloc rest seen' results'
           | (seen', results', Some text) \<Rightarrow>
               search_all tavily netloc rest seen' (results' @ [Failure query text])))"

definition search_results ::
  "(string \<Rightarrow> string + pydict list) \<Rightarrow> (string \<Rightarrow> string + string) \<Rightarrow> string list
    \<Rightarrow> block list" where
  "search_results tavily netloc queries = search_all tavily netloc queries {} []"

text \<open>\<open>tavily_search\<close>; \<open>api_key\<close> is \<open>os.getenv("TAVILY_API_KEY")\<close>.\<close>

definition tavily_search ::
  "string option \<Rightarrow> (string \<Rightarrow> string + pydict list) \<Rightarrow> (string \<Rightarrow> string + string)
    \<Rightarrow> string list \<Rightarrow> string" where
  "tavily_search api_key tavily netloc queries =
     (if api_key = None \<or> api_key = Some []
      then ''Error: TAVILY_API_KEY environment variable is not set''
      else (let results = search_results tavily netloc queries
            in if results = []
               then ''No results found.''
               else ''Found '' @ str_of_nat (length results) @ '' results:'' @ nl @ nl
                      @ join (nl @ nl) (map render results)))"

section \<open>Example inputs\<close>

text \<open>
  A topics directory with two topics, a directory that holds a links file but no
  preferences document, and a stray file.
\<close>

definition example_topics :: store where
  "example_topics =
     [(''stray'', Directory \<lparr>preferences_md = None, links_yaml = Some [], other_files = []\<rparr>),
      (''metroidvania-games'',
         Directory \<lparr>preferences_md = Some ''# Metroidvania'', links_yaml = None,
                    other_files = []\<rparr>),
      (''notes.txt'', RegularFile),
      (''ai-safety'',
         Directory \<lparr>preferences_md = Some ''# AI safety'', links_yaml = None,
                    other_files = [''draft.md'']\<rparr>)]"

definition example_state :: scout_state where
  "example_state =
     \<lparr>task = Some (PStr ''find articles''), topic_slug = Some (PStr ''''),
      preferences = None, saved_urls = None, recommended = None, summary = None\<rparr>"

text \<open>A model that guesses one topic without being sure.\<close>

definition example_guess :: "pyval \<Rightarrow> pyval \<Rightarrow> string list \<Rightarrow> TopicResolution" where
  "example_guess task_text hint available =
     \<lparr>slug = Some ''ai-safety'', confidence = ''low'', reason = ''unsure''\<rparr>"

text \<open>
  A topics directory whose one topic has a saved link, three articles, and the state in
  which \<open>_save_articles\<close> finds a list of recommendations for that topic.
\<close>

definition example_saved :: store where
  "example_saved =
     [(''ai-safety'',
         Directory \<lparr>preferences_md = Some ''# AI safety'',
                    links_yaml = Some [[(''title'', PStr ''Old''), (''url'', PStr ''https://old.example''),
                                        (''reason'', PStr ''kept''), (''date'', PStr ''2025-01-01'')]],
                    other_files = []\<rparr>)]"

definition article_old :: pydict where
  "article_old =
     [(''url'', PStr ''https://old.example''), (''title'', PStr ''Old''), (''reason'', PStr ''again'')]"

definition article_new :: pydict where
  "article_new =
     [(''url'', PStr ''https://new.example''), (''title'', PStr ''New''), (''reason'', PStr ''fits'')]"

definition article_no_url :: pydict where
  "article_no_url = [(''title'', PStr ''No link''), (''reason'', PStr ''none'')]"

definition save_state :: "pydict list \<Rightarrow> scout_state" where
  "save_state recs =
     \<lparr>task = Some (PStr ''find articles''), topic_slug = Some (PStr ''ai-safety''),
      preferences = None, saved_urls = None, recommended = Some recs,
      summary = Some ''Found.''\<rparr>"

text \<open>A model that is sure of the topic, and a search stage that recommends one article.\<close>

definition example_sure :: "pyval \<Rightarrow> pyval \<Rightarrow> string list \<Rightarrow> TopicResolution" where
  "example_sure task_text hint available =
     \<lparr>slug = Some ''ai-safety'', confidence = ''high'', reason = ''named''\<rparr>"

definition example_stage :: "scout_state \<Rightarrow> error + (pydict list \<times> string)" where
  "example_stage state = Inr ([article_new], ''Found.'')"

definition example_outer :: multi_agent_state where
  "example_outer =
     \<lparr>messages = [HumanMessage ''find articles on ai safety''],
      active_agent = Some ''content_scout'',
      topic_context = Some [(''task'', PStr ''find articles''), (''topic_slug'', PStr ''ai-safety'')]\<rparr>"

definition example_runtime :: tool_runtime where
  "example_runtime =
     \<lparr>state_messages = [HumanMessage ''find articles'', AIMessage [] [''call_1'']],
      tool_call_id = ''call_1''\<rparr>"

text \<open>
  A reply that is JSON but not an object, with the two library calls at that reply: no
  fenced block to find, and the number that \<open>json.loads\<close> reads.
\<close>

definition example_re_search :: "string \<Rightarrow> string option" where
  "example_re_search reply = None"

definition example_loads :: "string \<Rightarrow> json option" where
  "example_loads s = (if s = ''42'' then Some (JNumber 42) else None)"

text \<open>
  A search service that answers two queries with overlapping hits and fails on a third,
  and the domains of the URLs it returns.
\<close>

definition example_service :: "string \<Rightarrow> string + pydict list" where
  "example_service query =
     (if query = ''agents''
      then Inr [[(''url'', PStr ''https://a.example/1''), (''title'', PStr ''A''), (''content'', PStr ''on a'')],
                [(''url'', PStr ''https://b.example/2''), (''title'', PStr ''B''), (''content'', PStr ''on b'')]]
      else if query = ''down''
      then Inl ''timed out''
      else Inr [[(''url'', PStr ''https://b.example/2''), (''title'', PStr ''B''), (''content'', PStr ''on b'')],
                [(''url'', PStr ''https://c.example/3''), (''title'', PStr ''C''), (''content'', PStr ''on c'')]])"

definition example_netloc :: "string \<Rightarrow> string + string" where
  "example_netloc url =
     (if url = ''https://a.example/1'' then Inr ''a.example''
      else if url = ''https://b.example/2'' then Inr ''b.example''
      else Inr ''c.example'')"

text \<open>
  Eighteen messages, and a reducer that merges as the message channel does for messages
  it already holds: an update's message that is in the history keeps its place there, and
  any other message is added at the end.
\<close>

definition example_history :: "message list" where
  "example_history =
     map HumanMessage
       [''m01'', ''m02'', ''m03'', ''m04'', ''m05'', ''m06'', ''m07'', ''m08'', ''m09'',
        ''m10'', ''m11'', ''m12'', ''m13'', ''m14'', ''m15'', ''m16'', ''m17'', ''m18'']"

definition example_reducer :: "message list \<Rightarrow> message list \<Rightarrow> message list" where
  "example_reducer history upd = history @ filter (\<lambda>m. m \<notin> set history) upd"

section \<open>The message trimmer: results\<close>

text \<open>
  Claim C3. The trimmer does not cap what the model is sent. For at most 16 messages it
  returns \<open>None\<close>, and for more it returns the update that holds the last 16, as the
  claim says of the value. But the update is handed to the agent's message channel, and
  every message in it is a message of the history: it names nothing to remove. A reducer
  that leaves the history as it is when the update's messages are all in the history
  already, as a merge by message id does, gives back the whole history, so the messages
  of the next model call are all L of them, not the last 16. The docstring says the
  trimmer keeps the last N messages to cap the context of each call.
\<close>

theorem trim_messages_update_keeps_history:
  assumes merge: "\<forall>history upd. set upd \<subseteq> set history \<longrightarrow> add_messages history upd = history"
  shows "(length ms \<le> 16 \<longrightarrow> trim_messages ms = None)
    \<and> (16 < length ms \<longrightarrow> trim_messages ms = Some (drop (length ms - 16) ms))
    \<and> (\<forall>upd. trim_messages ms = Some upd \<longrightarrow>
          length upd = 16 \<and> set upd \<subseteq> set ms
          \<and> add_messages ms upd = ms \<and> length (add_messages ms upd) = length ms)"
proof -
  have short: "length ms \<le> 16 \<longrightarrow> trim_messages ms = None"
    by (simp add: trim_messages_def MAX_MESSAGES_def)
  have long: "16 < length ms \<longrightarrow> trim_messages ms = Some (drop (length ms - 16) ms)"
    by (simp add: trim_messages_def slice_last_def MAX_MESSAGES_def)
  have kept: "\<forall>upd. trim_messages ms = Some upd \<longrightarrow>
          length upd = 16 \<and> set upd \<subseteq> set ms
          \<and> add_messages ms upd = ms \<and> length (add_messages ms upd) = length ms"
  proof (intro allI impI)
    fix upd
    assume returned: "trim_messages ms = Some upd"
    then have more: "16 < length ms" and upd: "upd = drop (length ms - 16) ms"
      by (auto simp: trim_messages_def slice_last_def MAX_MESSAGES_def split: if_splits)
    from more upd have len: "length upd = 16"
      by simp
    from upd have inside: "set upd \<subseteq> set ms"
      by (simp add: set_drop_subset)
    with merge have same: "add_messages ms upd = ms"
      by blast
    from len inside same
    show "length upd = 16 \<and> set upd \<subseteq> set ms
          \<and> add_messages ms upd = ms \<and> length (add_messages ms upd) = length ms"
      by simp
  qed
  from short long kept show ?thesis by blast
qed

theorem trim_messages_update_keeps_history_witness:
  "trim_messages example_history = Some (drop 2 example_history)
   \<and> example_reducer example_history (drop 2 example_history) = example_history
   \<and> length (example_reducer example_history (drop 2 example_history)) = 18"
proof -
  have merge: "\<forall>history upd. set upd \<subseteq> set history
      \<longrightarrow> example_reducer history upd = history"
  proof (intro allI impI)
    fix history upd :: "message list"
    assume "set upd \<subseteq> set history"
    then have "filter (\<lambda>m. m \<notin> set history) upd = []"
      by (auto simp: filter_empty_conv)
    then show "example_reducer history upd = history"
      by (simp add: example_reducer_def)
  qed
  have len: "length example_history = 18"
    by (simp add: example_history_def)
  from trim_messages_update_keeps_history [OF merge, of example_history] len
  have returned: "trim_messages example_history = Some (drop 2 example_history)"
    by simp
  with trim_messages_update_keeps_history [OF merge, of example_history] len
  show ?thesis by simp
qed

section \<open>The topic store: results\<close>

lemma topic_names_set:
  "set (map fst (filter (\<lambda>(name, path). is_dir path \<and> has_preferences path) st))
     = {n. \<exists>d. (n, Directory d) \<in> set st \<and> preferences_md d \<noteq> None}"
proof (induction st)
  case Nil
  then show ?case by simp
next
  case (Cons a st)
  obtain n e where a: "a = (n, e)" by (cases a)
  show ?case
  proof (cases e)
    case RegularFile
    with a Cons show ?thesis by auto
  next
    case (Directory d)
    with a Cons show ?thesis by auto
  qed
qed

lemma available_sorted: "sorted (get_available_topics st)"
  by (simp add: get_available_topics_def)

lemma example_available:
  "get_available_topics example_topics = [''ai-safety'', ''metroidvania-games'']"
  by (simp add: get_available_topics_def example_topics_def)

text \<open>
  Claim C7. Whatever the topics directory holds, a name is among the topic slugs, as
  \<open>get_topic_slugs\<close> and as \<open>_get_available_topics\<close> list them, exactly when the
  directory has an entry of that name that is a directory with a preferences document. A
  name whose directories all lack the preferences document is not listed, whatever else
  they hold (a links file, other files).
\<close>

theorem topic_listed_iff_preferences:
  "(s \<in> set (get_topic_slugs st) \<longleftrightarrow>
      (\<exists>d. (s, Directory d) \<in> set st \<and> preferences_md d \<noteq> None))
   \<and> (s \<in> set (get_available_topics st) \<longleftrightarrow>
      (\<exists>d. (s, Directory d) \<in> set st \<and> preferences_md d \<noteq> None))
   \<and> ((\<forall>d. (s, Directory d) \<in> set st \<longrightarrow> preferences_md d = None) \<longrightarrow>
        s \<notin> set (get_topic_slugs st) \<and> s \<notin> set (get_available_topics st))"
proof -
  have a: "set (get_topic_slugs st)
      = {n. \<exists>d. (n, Directory d) \<in> set st \<and> preferences_md d \<noteq> None}"
    unfolding get_topic_slugs_def set_sort by (rule topic_names_set)
  have b: "set (get_available_topics st)
      = {n. \<exists>d. (n, Directory d) \<in> set st \<and> preferences_md d \<noteq> None}"
    unfolding get_available_topics_def set_sort by (rule topic_names_set)
  show ?thesis unfolding a b by simp
qed

theorem topic_listed_iff_preferences_witness:
  "''stray'' \<notin> set (get_topic_slugs example_topics)
   \<and> ''stray'' \<notin> set (get_available_topics example_topics)
   \<and> ''ai-safety'' \<in> set (get_topic_slugs example_topics)"
proof -
  have none: "\<forall>d. (''stray'', Directory d) \<in> set example_topics \<longrightarrow> preferences_md d = None"
    by (auto simp: example_topics_def)
  have some: "\<exists>d. (''ai-safety'', Directory d) \<in> set example_topics \<and> preferences_md d \<noteq> None"
    by (simp add: example_topics_def)
  from none topic_listed_iff_preferences [of "''stray''" example_topics]
  have "''stray'' \<notin> set (get_topic_slugs example_topics)
      \<and> ''stray'' \<notin> set (get_available_topics example_topics)"
    by blast
  moreover from some topic_listed_iff_preferences [of "''ai-safety''" example_topics]
  have "''ai-safety'' \<in> set (get_topic_slugs example_topics)"
    by blast
  ultimately show ?thesis by blast
qed

section \<open>Topic resolution: results\<close>

text \<open>The two string tests are what they are meant to be: a prefix, a contiguous run.\<close>

lemma starts_with_iff: "starts_with xs ys \<longleftrightarrow> (\<exists>q. ys = xs @ q)"
  by (induction xs ys rule: starts_with.induct) auto

lemma str_in_iff: "str_in xs ys \<longleftrightarrow> (\<exists>p q. ys = p @ xs @ q)"
proof (induction ys)
  case Nil
  then show ?case by simp
next
  case (Cons y ys)
  show ?case
  proof
    assume "str_in xs (y # ys)"
    then consider "starts_with xs (y # ys)" | "str_in xs ys" by auto
    then show "\<exists>p q. y # ys = p @ xs @ q"
    proof cases
      case 1
      then obtain q where "y # ys = xs @ q" by (auto simp: starts_with_iff)
      then have "y # ys = [] @ xs @ q" by simp
      then show ?thesis by blast
    next
      case 2
      with Cons.IH obtain p q where "ys = p @ xs @ q" by blast
      then have "y # ys = (y # p) @ xs @ q" by simp
      then show ?thesis by blast
    qed
  next
    assume "\<exists>p q. y # ys = p @ xs @ q"
    then obtain p q where pq: "y # ys = p @ xs @ q" by blast
    show "str_in xs (y # ys)"
    proof (cases "p = []")
      case True
      with pq have "starts_with xs (y # ys)" by (auto simp: starts_with_iff)
      then show ?thesis by simp
    next
      case False
      then obtain a p' where "p = a # p'" by (cases p) auto
      with pq have "ys = p' @ xs @ q" by simp
      with Cons.IH have "str_in xs ys" by blast
      then show ?thesis by simp
    qed
  qed
qed

lemma first_match_none:
  "first_match r ts = None \<longleftrightarrow>
     (\<forall>t \<in> set ts. \<not> (r = t \<or> str_in r t \<or> str_in t r))"
  by (induction ts) auto

lemma first_match_first:
  assumes "i < length ts"
    and "r = ts ! i \<or> str_in r (ts ! i) \<or> str_in (ts ! i) r"
    and "\<forall>j<i. \<not> (r = ts ! j \<or> str_in r (ts ! j) \<or> str_in (ts ! j) r)"
  shows "first_match r ts = Some (ts ! i)"
  using assms
proof (induction ts arbitrary: i)
  case Nil
  then show ?case by simp
next
  case (Cons t ts)
  show ?case
  proof (cases i)
    case 0
    with Cons.prems show ?thesis by auto
  next
    case (Suc k)
    from Cons.prems(3) Suc have head: "\<not> (r = t \<or> str_in r t \<or> str_in t r)"
      by (metis nth_Cons_0 zero_less_Suc)
    from Cons.prems(3) Suc
    have earlier: "\<forall>j<k. \<not> (r = ts ! j \<or> str_in r (ts ! j) \<or> str_in (ts ! j) r)"
      by (metis Suc_less_eq nth_Cons_Suc)
    from Cons.prems(1,2) Suc have "k < length ts"
      and "r = ts ! k \<or> str_in r (ts ! k) \<or> str_in (ts ! k) r"
      by auto
    then have "first_match r ts = Some (ts ! k)"
      using earlier by (intro Cons.IH)
    with head Suc show ?thesis by simp
  qed
qed

text \<open>
  Claim C5. \<open>_resolve_topic\<close> has two suspension points, and the list of known slugs
  is sorted. With no topic at all, whatever the reply, the resolved slug is \<open>None\<close>.
  Otherwise let the model's answer not be accepted outright (not both of high confidence
  and a known slug), so that the run suspends with the clarifying question. When it is
  resumed with a reply, the reply is lowered and stripped, and: an affirmative reply
  (\<open>yes\<close> or \<open>y\<close>) with a guessed slug at hand resolves to the guessed slug; any
  other reply (and an affirmative one when there is no guess) resolves to the first slug
  of the list, in the list's order, that equals the reply, contains it or is contained in
  it; and when no slug of the list does, the resolved slug is \<open>None\<close>.
\<close>

theorem resolve_topic_reply:
  fixes topics_dir model state response
  defines "available \<equiv> get_available_topics topics_dir"
  defines "result \<equiv> model (state_get (task state) (PStr ''''))
                      (state_get (topic_slug state) (PStr '''')) available"
  defines "reply \<equiv> strip (lower response)"
  defines "matches \<equiv> (\<lambda>topic. reply = topic \<or> (\<exists>p q. topic = p @ reply @ q)
                                \<or> (\<exists>p q. reply = p @ topic @ q))"
  defines "resolved \<equiv> resolve_topic topics_dir model state (Some response)"
  shows "sorted available
    \<and> (available = [] \<longrightarrow> resolved = Returned PNone)
    \<and> (available \<noteq> []
         \<and> \<not> (confidence result = ''high'' \<and> slug_known (slug result) available)
        \<longrightarrow> ((reply = ''yes'' \<or> reply = ''y'') \<and> slug result = Some guess \<and> guess \<noteq> []
               \<longrightarrow> resolved = Returned (PStr guess))
          \<and> (\<not> ((reply = ''yes'' \<or> reply = ''y'') \<and> slug_truthy (slug result))
               \<longrightarrow> (\<forall>i < length available.
                      matches (available ! i) \<and> (\<forall>j<i. \<not> matches (available ! j))
                      \<longrightarrow> resolved = Returned (PStr (available ! i)))
                 \<and> ((\<forall>topic \<in> set available. \<not> matches topic)
                      \<longrightarrow> resolved = Returned PNone)))"
proof -
  have ordered: "sorted available"
    unfolding available_def by (rule available_sorted)
  have no_topics: "available = [] \<longrightarrow> resolved = Returned PNone"
    by (simp add: resolved_def resolve_topic_def available_def)
  have m: "\<And>topic. matches topic
             \<longleftrightarrow> (reply = topic \<or> str_in reply topic \<or> str_in topic reply)"
    by (simp add: matches_def str_in_iff)
  have asked: "available \<noteq> []
         \<and> \<not> (confidence result = ''high'' \<and> slug_known (slug result) available)
        \<longrightarrow> ((reply = ''yes'' \<or> reply = ''y'') \<and> slug result = Some guess \<and> guess \<noteq> []
               \<longrightarrow> resolved = Returned (PStr guess))
          \<and> (\<not> ((reply = ''yes'' \<or> reply = ''y'') \<and> slug_truthy (slug result))
               \<longrightarrow> (\<forall>i < length available.
                      matches (available ! i) \<and> (\<forall>j<i. \<not> matches (available ! j))
                      \<longrightarrow> resolved = Returned (PStr (available ! i)))
                 \<and> ((\<forall>topic \<in> set available. \<not> matches topic)
                      \<longrightarrow> resolved = Returned PNone))"
  proof
    assume unsure: "available \<noteq> []
         \<and> \<not> (confidence result = ''high'' \<and> slug_known (slug result) available)"
    then have run: "resolved = Returned (process_response result available response)"
      by (auto simp: resolved_def resolve_topic_def Let_def available_def result_def)
    have yes: "(reply = ''yes'' \<or> reply = ''y'') \<and> slug result = Some guess \<and> guess \<noteq> []
        \<longrightarrow> resolved = Returned (PStr guess)"
      unfolding run by (simp add: process_response_def Let_def reply_def)
    have other: "\<not> ((reply = ''yes'' \<or> reply = ''y'') \<and> slug_truthy (slug result))
        \<longrightarrow> (\<forall>i < length available.
               matches (available ! i) \<and> (\<forall>j<i. \<not> matches (available ! j))
               \<longrightarrow> resolved = Returned (PStr (available ! i)))
          \<and> ((\<forall>topic \<in> set available. \<not> matches topic)
               \<longrightarrow> resolved = Returned PNone)"
    proof (intro impI conjI allI)
      fix i
      assume no: "\<not> ((reply = ''yes'' \<or> reply = ''y'') \<and> slug_truthy (slug result))"
        and i: "i < length available"
        and first: "matches (available ! i) \<and> (\<forall>j<i. \<not> matches (available ! j))"
      from i first have "first_match reply available = Some (available ! i)"
        unfolding m by (intro first_match_first) auto
      with no show "resolved = Returned (PStr (available ! i))"
        unfolding run by (auto simp: process_response_def Let_def reply_def)
    next
      assume no: "\<not> ((reply = ''yes'' \<or> reply = ''y'') \<and> slug_truthy (slug result))"
        and none: "\<forall>topic \<in> set available. \<not> matches topic"
      from none have "first_match reply available = None"
        unfolding m first_match_none by simp
      with no show "resolved = Returned PNone"
        unfolding run by (auto simp: process_response_def Let_def reply_def)
    qed
    from yes other
    show "((reply = ''yes'' \<or> reply = ''y'') \<and> slug result = Some guess \<and> guess \<noteq> []
               \<longrightarrow> resolved = Returned (PStr guess))
          \<and> (\<not> ((reply = ''yes'' \<or> reply = ''y'') \<and> slug_truthy (slug result))
               \<longrightarrow> (\<forall>i < length available.
                      matches (available ! i) \<and> (\<forall>j<i. \<not> matches (available ! j))
                      \<longrightarrow> resolved = Returned (PStr (available ! i)))
                 \<and> ((\<forall>topic \<in> set available. \<not> matches topic)
                      \<longrightarrow> resolved = Returned PNone))"
      by blast
  qed
  from ordered no_topics asked show ?thesis by blast
qed

theorem resolve_topic_reply_witness:
  "resolve_topic example_topics example_guess example_state (Some '' Yes '')
     = Returned (PStr ''ai-safety'')
   \<and> resolve_topic example_topics example_guess example_state (Some ''Metroidvania'')
        = Returned (PStr ''metroidvania-games'')
   \<and> resolve_topic example_topics example_guess example_state (Some ''cooking'')
        = Returned PNone
   \<and> resolve_topic [(''notes.txt'', RegularFile)] example_guess example_state (Some ''yes'')
        = Returned PNone
   \<and> sorted (get_available_topics example_topics)"
proof -
  have unsure:
    "get_available_topics example_topics \<noteq> []
     \<and> \<not> (confidence (example_guess (state_get (task example_state) (PStr ''''))
             (state_get (topic_slug example_state) (PStr ''''))
             (get_available_topics example_topics)) = ''high''
        \<and> slug_known (slug (example_guess (state_get (task example_state) (PStr ''''))
             (state_get (topic_slug example_state) (PStr ''''))
             (get_available_topics example_topics)))
             (get_available_topics example_topics))"
    by (simp add: example_guess_def example_available)
  have yes: "strip (lower '' Yes '') = ''yes''"
    by (simp add: strip_def lower_def lower_char_def is_space_def)
  have metro: "strip (lower ''Metroidvania'') = ''metroidvania''"
    by (simp add: strip_def lower_def lower_char_def is_space_def)
  have cooking: "strip (lower ''cooking'') = ''cooking''"
    by (simp add: strip_def lower_def lower_char_def is_space_def)
  note reply = resolve_topic_reply [of example_topics example_guess example_state _
      "''ai-safety''"]
  have a: "resolve_topic example_topics example_guess example_state (Some '' Yes '')
      = Returned (PStr ''ai-safety'')"
    using reply [of "'' Yes ''"] unsure
    by (simp add: yes example_guess_def)
  have inside: "\<exists>p q. ''metroidvania-games'' = p @ ''metroidvania'' @ q"
    unfolding str_in_iff [symmetric] by simp
  have not_first: "\<not> (''metroidvania'' = ''ai-safety''
      \<or> (\<exists>p q. ''ai-safety'' = p @ ''metroidvania'' @ q)
      \<or> (\<exists>p q. ''metroidvania'' = p @ ''ai-safety'' @ q))"
    unfolding str_in_iff [symmetric] by simp
  have b: "resolve_topic example_topics example_guess example_state (Some ''Metroidvania'')
        = Returned (PStr ''metroidvania-games'')"
    using reply [of "''Metroidvania''"] unsure inside not_first
    by (simp add: metro example_available example_guess_def less_Suc_eq)
  have no_match: "\<forall>topic \<in> set [''ai-safety'', ''metroidvania-games''].
      \<not> (''cooking'' = topic \<or> (\<exists>p q. topic = p @ ''cooking'' @ q)
          \<or> (\<exists>p q. ''cooking'' = p @ topic @ q))"
    unfolding str_in_iff [symmetric] by simp
  have c: "resolve_topic example_topics example_guess example_state (Some ''cooking'')
      = Returned PNone"
    using reply [of "''cooking''"] unsure no_match
    by (simp add: cooking example_available example_guess_def)
  have none: "get_available_topics [(''notes.txt'', RegularFile)] = []"
    by (simp add: get_available_topics_def)
  have d: "resolve_topic [(''notes.txt'', RegularFile)] example_guess example_state (Some ''yes'')
      = Returned PNone"
    using resolve_topic_reply [of "[(''notes.txt'', RegularFile)]" example_guess example_state
        "''yes''" "''ai-safety''"] none
    by blast
  have e: "sorted (get_available_topics example_topics)"
    using reply [of "''cooking''"] by blast
  from a b c d e show ?thesis by blast
qed

section \<open>The pipeline without topics: results\<close>

text \<open>
  Claim C1. With no topic in the store, \<open>_resolve_topic\<close> suspends the run with its
  question, and on resume, whatever the reply, it returns the update
  \<open>{"topic_slug": None}\<close>. The next stage, \<open>_load_context\<close>, reads that \<open>None\<close>
  and joins it to the topics path, which raises TypeError: the resumed run of the
  subgraph ends with the exception, not with a result whose topic slug is null, and so
  does the turn of the worker that runs it. The source's comment at the return says the
  run "will fail gracefully".
\<close>

theorem no_topics_run_raises:
  assumes "get_available_topics topics_dir = []"
  shows "resolve_topic topics_dir model state None = Interrupted no_topics_question
    \<and> scout_graph today topics_dir model search_evaluate state None
        = Interrupted no_topics_question
    \<and> resolve_topic topics_dir model state (Some response) = Returned PNone
    \<and> load_context topics_dir (state\<lparr>topic_slug := Some PNone\<rparr>) = Inl TypeError
    \<and> scout_graph today topics_dir model search_evaluate state (Some response)
        = Raised TypeError
    \<and> content_scout_invoke today topics_dir model search_evaluate outer (Some response)
        = Raised TypeError"
proof -
  have first: "resolve_topic topics_dir model state None = Interrupted no_topics_question"
    using assms by (simp add: resolve_topic_def)
  have resumed: "resolve_topic topics_dir model state (Some response) = Returned PNone"
    using assms by (simp add: resolve_topic_def)
  have load: "load_context topics_dir (state\<lparr>topic_slug := Some PNone\<rparr>) = Inl TypeError"
    by (simp add: load_context_def state_get_def)
  from first have suspended:
    "scout_graph today topics_dir model search_evaluate state None
       = Interrupted no_topics_question"
    by (simp add: scout_graph_def)
  from resumed load have raised:
    "scout_graph today topics_dir model search_evaluate state (Some response)
       = Raised TypeError"
    by (simp add: scout_graph_def)
  have worker:
    "content_scout_invoke today topics_dir model search_evaluate outer (Some response)
       = Raised TypeError"
    using assms
    by (simp add: content_scout_invoke_def scout_graph_def resolve_topic_def
        load_context_def state_get_def Let_def)
  from first suspended resumed load raised worker show ?thesis by blast
qed

theorem no_topics_run_raises_witness:
  "scout_graph ''2025-06-01'' [(''notes.txt'', RegularFile)] example_guess example_stage
       example_state None
     = Interrupted no_topics_question
   \<and> scout_graph ''2025-06-01'' [(''notes.txt'', RegularFile)] example_guess example_stage
       example_state (Some ''ok'')
     = Raised TypeError"
proof -
  have none: "get_available_topics [(''notes.txt'', RegularFile)] = []"
    by (simp add: get_available_topics_def)
  from no_topics_run_raises [OF none, of example_guess example_state "''2025-06-01''"
      example_stage "''ok''" example_outer]
  show ?thesis by blast
qed

section \<open>Extraction of the recommendations: results\<close>

text \<open>
  Claim C4. The extraction is not total. Let the agent's last message be an assistant
  reply with content, and let what the code parses, the fenced block when the regular
  expression finds one and the whole reply otherwise, be JSON for a value that is not an
  object (a number, a string, a list, a boolean or null). No JSONDecodeError is raised,
  so the handler does not run;
  \<open>data.get\<close> raises AttributeError, and the exception leaves \<open>_search_evaluate\<close>
  instead of a summary made of the reply's text. The reply \<open>42\<close> is one such input.
\<close>

theorem parse_reply_not_an_object:
  assumes "(case re_search reply of
              Some group1 \<Rightarrow> json_loads group1
            | None \<Rightarrow> json_loads reply) = Some data"
    and "\<forall>d. data \<noteq> JObject d"
    and "reply \<noteq> []"
  shows "parse_reply re_search json_loads reply = Inl AttributeError
    \<and> extract_recommendations re_search json_loads (history @ [AIMessage reply calls])
        = Inl AttributeError"
proof -
  from assms(1,2) have parse: "parse_reply re_search json_loads reply = Inl AttributeError"
    by (cases data) (simp_all add: parse_reply_def)
  from assms(3) have "find (\<lambda>msg. is_ai msg \<and> content msg \<noteq> [])
      (rev (history @ [AIMessage reply calls])) = Some (AIMessage reply calls)"
    by simp
  then have "extract_recommendations re_search json_loads (history @ [AIMessage reply calls])
      = parse_reply re_search json_loads reply"
    by (simp add: extract_recommendations_def)
  with parse show ?thesis by simp
qed

theorem parse_reply_not_an_object_witness:
  "parse_reply example_re_search example_loads ''42'' = Inl AttributeError
   \<and> extract_recommendations example_re_search example_loads
        [HumanMessage ''find articles'', AIMessage ''42'' []]
      = Inl AttributeError"
proof -
  have a: "(case example_re_search ''42'' of
              Some group1 \<Rightarrow> example_loads group1
            | None \<Rightarrow> example_loads ''42'') = Some (JNumber 42)"
    by (simp add: example_re_search_def example_loads_def)
  have c: "\<forall>d. JNumber 42 \<noteq> JObject d"
    by simp
  have d: "''42'' \<noteq> []"
    by simp
  from parse_reply_not_an_object [where re_search = example_re_search and reply = "''42''"
      and json_loads = example_loads and data = "JNumber 42"
      and history = "[HumanMessage ''find articles'']" and calls = "[]", OF a c d]
  show ?thesis by simp
qed

section \<open>Saving the articles: results\<close>

text \<open>
  The loop appends one stamped entry for each article whose URL is true and not in the
  set computed before the loop, and counts them.
\<close>

lemma add_new_eq:
  "add_new today urls recs existing n =
     (existing @ map (new_link today)
        (filter (\<lambda>a. truthy (dict_get_default a ''url'' (PStr ''''))
                     \<and> dict_get_default a ''url'' (PStr '''') \<notin> urls) recs),
      n + length (filter (\<lambda>a. truthy (dict_get_default a ''url'' (PStr ''''))
                     \<and> dict_get_default a ''url'' (PStr '''') \<notin> urls) recs))"
  by (induction recs arbitrary: existing n) (simp_all add: Let_def)

lemma new_link_fields:
  "dict_get (new_link today a) ''date'' = PStr today"
  "dict_get (new_link today a) ''url'' = dict_get_default a ''url'' (PStr '''')"
  by (simp_all add: new_link_def dict_get_def)

lemma read_after_write:
  "map_of st name = Some (Directory d) \<Longrightarrow>
     read_links (write_entry name links st) name = Some links"
proof (induction st)
  case Nil
  then show ?case by simp
next
  case (Cons a st)
  obtain n e where a: "a = (n, e)" by (cases a)
  show ?case
  proof (cases "n = name")
    case True
    with a Cons.prems show ?thesis
      by (simp add: load_existing_def read_links_def find_dir_def)
  next
    case False
    with a Cons.prems have "map_of st name = Some (Directory d)" by simp
    then have "read_links (write_entry name links st) name = Some links" by (rule Cons.IH)
    with a False show ?thesis
      by (simp add: load_existing_def read_links_def find_dir_def)
  qed
qed

text \<open>
  Claim C8. With an empty list of recommendations \<open>_save_articles\<close> returns the
  summary it was given and the store as it was. With recommendations for a topic whose
  URLs are all empty or already among the saved links, it returns the summary extended by
  the note on duplicates, and the store as it was. With at least one recommendation whose
  URL is true and not among the saved links, and the topic's directory at hand, the links
  file is rewritten to hold the links it held followed by one entry for each such
  recommendation, in their order; each new entry carries today's date and a URL that
  was not among the saved links.
\<close>

theorem save_articles_frame:
  fixes today topics_dir state name
  defines "recs \<equiv> state_get (recommended state) []"
  defines "loaded \<equiv> load_existing topics_dir name"
  defines "present \<equiv> set (map (\<lambda>link. dict_get link ''url'') loaded)"
  defines "url_of \<equiv> (\<lambda>a. dict_get_default a ''url'' (PStr ''''))"
  defines "fresh \<equiv> filter (\<lambda>a. truthy (url_of a) \<and> url_of a \<notin> present) recs"
  shows "(recs = [] \<longrightarrow>
            save_articles today topics_dir state
              = Inr (state_get (summary state) ''No articles found to save.'', topics_dir)
            \<and> (\<forall>s. summary state = Some s \<longrightarrow>
                 save_articles today topics_dir state = Inr (s, topics_dir)))
    \<and> (recs \<noteq> [] \<and> state_get (topic_slug state) (PStr '''') = PStr name
         \<and> (\<forall>a \<in> set recs. \<not> truthy (url_of a) \<or> url_of a \<in> present) \<longrightarrow>
            save_articles today topics_dir state
              = Inr (state_get (summary state) '''' @ nl @ nl
                       @ ''No new articles to save (duplicates filtered).'', topics_dir))
    \<and> (recs \<noteq> [] \<and> state_get (topic_slug state) (PStr '''') = PStr name \<and> fresh \<noteq> []
         \<and> map_of topics_dir name = Some (Directory d) \<longrightarrow>
            (\<exists>s written. save_articles today topics_dir state = Inr (s, written)
               \<and> written = write_entry name (loaded @ map (new_link today) fresh) topics_dir
               \<and> read_links written name = Some (loaded @ map (new_link today) fresh))
            \<and> (\<forall>l \<in> set (map (new_link today) fresh).
                  dict_get l ''date'' = PStr today \<and> dict_get l ''url'' \<notin> present))"
proof -
  have empty: "recs = [] \<longrightarrow>
            save_articles today topics_dir state
              = Inr (state_get (summary state) ''No articles found to save.'', topics_dir)
            \<and> (\<forall>s. summary state = Some s \<longrightarrow>
                 save_articles today topics_dir state = Inr (s, topics_dir))"
    by (simp add: save_articles_def recs_def Let_def state_get_def)
  have dup: "recs \<noteq> [] \<and> state_get (topic_slug state) (PStr '''') = PStr name
         \<and> (\<forall>a \<in> set recs. \<not> truthy (url_of a) \<or> url_of a \<in> present) \<longrightarrow>
            save_articles today topics_dir state
              = Inr (state_get (summary state) '''' @ nl @ nl
                       @ ''No new articles to save (duplicates filtered).'', topics_dir)"
  proof (intro impI)
    assume h: "recs \<noteq> [] \<and> state_get (topic_slug state) (PStr '''') = PStr name
         \<and> (\<forall>a \<in> set recs. \<not> truthy (url_of a) \<or> url_of a \<in> present)"
    then have "filter (\<lambda>a. truthy (url_of a) \<and> url_of a \<notin> present) recs = []"
      by (auto simp: filter_empty_conv)
    then have none: "filter (\<lambda>a. truthy (dict_get_default a ''url'' (PStr ''''))
          \<and> dict_get_default a ''url'' (PStr '''')
              \<notin> set (map (\<lambda>link. dict_get link ''url'')
                         (load_existing topics_dir name)))
        (state_get (recommended state) []) = []"
      by (simp add: url_of_def present_def loaded_def recs_def)
    from h have r: "state_get (recommended state) [] \<noteq> []"
      and t: "state_get (topic_slug state) (PStr '''') = PStr name"
      by (simp_all add: recs_def)
    show "save_articles today topics_dir state
              = Inr (state_get (summary state) '''' @ nl @ nl
                       @ ''No new articles to save (duplicates filtered).'', topics_dir)"
      using r t none
      by (simp add: save_articles_def Let_def add_new_eq)
  qed
  have wr: "recs \<noteq> [] \<and> state_get (topic_slug state) (PStr '''') = PStr name \<and> fresh \<noteq> []
         \<and> map_of topics_dir name = Some (Directory d) \<longrightarrow>
            (\<exists>s written. save_articles today topics_dir state = Inr (s, written)
               \<and> written = write_entry name (loaded @ map (new_link today) fresh) topics_dir
               \<and> read_links written name = Some (loaded @ map (new_link today) fresh))
            \<and> (\<forall>l \<in> set (map (new_link today) fresh).
                  dict_get l ''date'' = PStr today \<and> dict_get l ''url'' \<notin> present)"
  proof (intro impI conjI)
    assume h: "recs \<noteq> [] \<and> state_get (topic_slug state) (PStr '''') = PStr name
         \<and> fresh \<noteq> [] \<and> map_of topics_dir name = Some (Directory d)"
    then have r: "state_get (recommended state) [] \<noteq> []"
      and t: "state_get (topic_slug state) (PStr '''') = PStr name"
      and d: "map_of topics_dir name = Some (Directory d)"
      by (simp_all add: recs_def)
    from h have some: "filter (\<lambda>a. truthy (dict_get_default a ''url'' (PStr ''''))
          \<and> dict_get_default a ''url'' (PStr '''')
              \<notin> set (map (\<lambda>link. dict_get link ''url'')
                         (load_existing topics_dir name)))
        (state_get (recommended state) []) \<noteq> []"
      by (simp add: fresh_def url_of_def present_def loaded_def recs_def)
    have reread:
      "read_links (write_entry name (loaded @ map (new_link today) fresh) topics_dir) name
         = Some (loaded @ map (new_link today) fresh)"
      using d by (rule read_after_write)
    show "\<exists>s written. save_articles today topics_dir state = Inr (s, written)
               \<and> written = write_entry name (loaded @ map (new_link today) fresh) topics_dir
               \<and> read_links written name = Some (loaded @ map (new_link today) fresh)"
      using r t d some reread
      by (simp add: save_articles_def Let_def add_new_eq write_links_def
          fresh_def url_of_def present_def loaded_def recs_def)
  next
    show "\<forall>l \<in> set (map (new_link today) fresh).
                  dict_get l ''date'' = PStr today \<and> dict_get l ''url'' \<notin> present"
      by (auto simp: new_link_fields fresh_def url_of_def)
  qed
  from empty dup wr show ?thesis by blast
qed

theorem save_articles_frame_witness:
  "save_articles ''2025-06-01'' example_saved (save_state []) = Inr (''Found.'', example_saved)
   \<and> save_articles ''2025-06-01'' example_saved (save_state [article_old])
        = Inr (''Found.'' @ nl @ nl @ ''No new articles to save (duplicates filtered).'',
               example_saved)
   \<and> (\<exists>s. save_articles ''2025-06-01'' example_saved (save_state [article_old, article_new])
         = Inr (s, [(''ai-safety'',
                     Directory \<lparr>preferences_md = Some ''# AI safety'',
                       links_yaml =
                         Some [[(''title'', PStr ''Old''), (''url'', PStr ''https://old.example''),
                                (''reason'', PStr ''kept''), (''date'', PStr ''2025-01-01'')],
                               [(''title'', PStr ''New''), (''url'', PStr ''https://new.example''),
                                (''reason'', PStr ''fits''), (''date'', PStr ''2025-06-01'')]],
                       other_files = []\<rparr>)]))"
proof -
  note frame = save_articles_frame [of _ "''2025-06-01''" example_saved "''ai-safety''"]
  have a: "save_articles ''2025-06-01'' example_saved (save_state [])
      = Inr (''Found.'', example_saved)"
    using frame [of "save_state []"]
    by (simp add: save_state_def state_get_def)
  have b: "save_articles ''2025-06-01'' example_saved (save_state [article_old])
        = Inr (''Found.'' @ nl @ nl @ ''No new articles to save (duplicates filtered).'',
               example_saved)"
    using frame [of "save_state [article_old]"]
    by (simp add: save_state_def state_get_def article_old_def example_saved_def
        load_existing_def read_links_def find_dir_def dict_get_def dict_get_default_def)
  have c: "\<exists>s. save_articles ''2025-06-01'' example_saved (save_state [article_old, article_new])
         = Inr (s, [(''ai-safety'',
                     Directory \<lparr>preferences_md = Some ''# AI safety'',
                       links_yaml =
                         Some [[(''title'', PStr ''Old''), (''url'', PStr ''https://old.example''),
                                (''reason'', PStr ''kept''), (''date'', PStr ''2025-01-01'')],
                               [(''title'', PStr ''New''), (''url'', PStr ''https://new.example''),
                                (''reason'', PStr ''fits''), (''date'', PStr ''2025-06-01'')]],
                       other_files = []\<rparr>)])"
    using frame [of "save_state [article_old, article_new]"
        "\<lparr>preferences_md = Some ''# AI safety'',
          links_yaml = Some [[(''title'', PStr ''Old''), (''url'', PStr ''https://old.example''),
                              (''reason'', PStr ''kept''), (''date'', PStr ''2025-01-01'')]],
          other_files = []\<rparr>"]
    by (simp add: save_state_def state_get_def article_old_def article_new_def
        example_saved_def load_existing_def read_links_def find_dir_def dict_get_def dict_get_default_def
        new_link_def)
  from a b c show ?thesis by blast
qed

text \<open>
  Claim C2. Saving is not idempotent within one list. The set of saved URLs is computed
  once, before the loop, and the loop does not add to it: when the list of
  recommendations names the same new URL twice, both are appended, and the links file
  holds that URL twice. Here the topic has one saved link and the list holds the same
  new article twice.
\<close>

theorem save_articles_same_url_twice:
  "\<exists>s. save_articles ''2025-06-01'' example_saved (save_state [article_new, article_new])
         = Inr (s, [(''ai-safety'',
                     Directory \<lparr>preferences_md = Some ''# AI safety'',
                       links_yaml =
                         Some [[(''title'', PStr ''Old''), (''url'', PStr ''https://old.example''),
                                (''reason'', PStr ''kept''), (''date'', PStr ''2025-01-01'')],
                               [(''title'', PStr ''New''), (''url'', PStr ''https://new.example''),
                                (''reason'', PStr ''fits''), (''date'', PStr ''2025-06-01'')],
                               [(''title'', PStr ''New''), (''url'', PStr ''https://new.example''),
                                (''reason'', PStr ''fits''), (''date'', PStr ''2025-06-01'')]],
                       other_files = []\<rparr>)])"
  by (simp add: save_articles_def Let_def add_new_eq save_state_def state_get_def
      article_new_def example_saved_def load_existing_def read_links_def find_dir_def write_links_def
      dict_get_def dict_get_default_def new_link_def)

text \<open>
  Claim C9. An article without a URL is neither appended nor counted, but the summary
  lists it. The list of saved URLs of the summary is made again from the recommendations,
  keeping every URL that is not among the saved links, without the test that the URL is
  true, and is cut to the count. Here the first article has no \<open>url\<close> and the second
  is new: the second is saved, and the one line of the summary reads \<open>None\<close>, the
  missing URL of the first; the URL that was saved is not listed.
\<close>

theorem save_articles_lists_skipped_article:
  "save_articles ''2025-06-01'' example_saved (save_state [article_no_url, article_new])
     = Inr (''Found.'' @ nl @ nl @ ''Saved to ai-safety:'' @ nl @ ''  '' @ arrow @ '' None'',
            [(''ai-safety'',
              Directory \<lparr>preferences_md = Some ''# AI safety'',
                links_yaml =
                  Some [[(''title'', PStr ''Old''), (''url'', PStr ''https://old.example''),
                         (''reason'', PStr ''kept''), (''date'', PStr ''2025-01-01'')],
                        [(''title'', PStr ''New''), (''url'', PStr ''https://new.example''),
                         (''reason'', PStr ''fits''), (''date'', PStr ''2025-06-01'')]],
                other_files = []\<rparr>)])"
  by (simp add: save_articles_def Let_def add_new_eq save_state_def state_get_def
      article_new_def article_no_url_def example_saved_def load_existing_def read_links_def find_dir_def
      write_links_def dict_get_def dict_get_default_def new_link_def)

section \<open>Handoffs: results\<close>

lemma handoff_messages_last:
  "last (handoff_messages runtime note) = note
   \<and> (\<exists>before. handoff_messages runtime note = before @ [note])"
  by (cases "last_ai_message (state_messages runtime)") (simp_all add: handoff_messages_def)

lemma content_scout_invoke_returned:
  assumes "content_scout_invoke today topics_dir model search_evaluate state resume
             = Returned (upd, written)"
  shows "upd_active_agent upd = ''supervisor'' \<and> upd_topic_context upd = []
    \<and> (\<exists>s. upd_messages upd = [AIMessage s []])"
  using assms
  by (auto simp: content_scout_invoke_def Let_def split: run.splits prod.splits)

text \<open>
  Claim C6. The supervisor is the router, the topic manager and the content scout the two
  specialists. The update of \<open>handoff_to_topics\<close> names the topic manager as the active
  agent and carries the context \<open>{task}\<close>; the one of \<open>handoff_to_scout\<close> names the
  content scout and carries \<open>{task, topic_slug}\<close>; the one of
  \<open>handoff_to_supervisor\<close>, and the one \<open>ContentScout.invoke\<close> returns when its
  subgraph has run to its end, name the supervisor and carry the empty context. The list
  of messages of each handoff tool's update ends with the synthetic note, a tool message
  answering the call; the content scout hands back one assistant message, its summary.
  Each tool's command goes to the agent node of the parent graph, the active agent it
  names is one of the three names of the registry, and the outer state that takes the
  update has that active agent, that context, and the update's messages merged into its
  history by the channel's reducer.
\<close>

theorem handoff_invariant:
  "(upd_active_agent (update (handoff_to_topics task_text runtime)) = ''topic_manager''
     \<and> upd_topic_context (update (handoff_to_topics task_text runtime))
         = [(''task'', PStr task_text)]
     \<and> last (upd_messages (update (handoff_to_topics task_text runtime)))
         = ToolMessage (''Transferring to TopicManager: '' @ task_text) (tool_call_id runtime))
   \<and> (upd_active_agent (update (handoff_to_scout task_text slug_text runtime)) = ''content_scout''
     \<and> upd_topic_context (update (handoff_to_scout task_text slug_text runtime))
         = [(''task'', PStr task_text), (''topic_slug'', PStr slug_text)]
     \<and> last (upd_messages (update (handoff_to_scout task_text slug_text runtime)))
         = ToolMessage (''Transferring to ContentScout: '' @ task_text @ '' (topic: ''
                          @ slug_text @ '')'') (tool_call_id runtime))
   \<and> (upd_active_agent (update (handoff_to_supervisor summary_text runtime)) = ''supervisor''
     \<and> upd_topic_context (update (handoff_to_supervisor summary_text runtime)) = []
     \<and> last (upd_messages (update (handoff_to_supervisor summary_text runtime)))
         = ToolMessage (''TopicManager completed: '' @ summary_text) (tool_call_id runtime))
   \<and> (content_scout_invoke today topics_dir model search_evaluate state resume
         = Returned (upd, written)
       \<longrightarrow> upd_active_agent upd = ''supervisor'' \<and> upd_topic_context upd = []
           \<and> (\<exists>s. upd_messages upd = [AIMessage s []])
           \<and> active_agent (apply_update add_messages state upd) = Some ''supervisor''
           \<and> topic_context (apply_update add_messages state upd) = Some [])
   \<and> (\<forall>cmd \<in> {handoff_to_topics task_text runtime,
                handoff_to_scout task_text slug_text runtime,
                handoff_to_supervisor summary_text runtime}.
         upd_active_agent (update cmd) \<in> set agent_names
         \<and> goto cmd = ''agent'' \<and> graph cmd = PARENT
         \<and> active_agent (apply_update add_messages outer (update cmd))
             = Some (upd_active_agent (update cmd))
         \<and> topic_context (apply_update add_messages outer (update cmd))
             = Some (upd_topic_context (update cmd))
         \<and> messages (apply_update add_messages outer (update cmd))
             = add_messages (messages outer) (upd_messages (update cmd)))"
proof -
  have topics: "upd_active_agent (update (handoff_to_topics task_text runtime)) = ''topic_manager''
     \<and> upd_topic_context (update (handoff_to_topics task_text runtime))
         = [(''task'', PStr task_text)]
     \<and> last (upd_messages (update (handoff_to_topics task_text runtime)))
         = ToolMessage (''Transferring to TopicManager: '' @ task_text) (tool_call_id runtime)"
    by (simp add: handoff_to_topics_def handoff_messages_last)
  have scout: "upd_active_agent (update (handoff_to_scout task_text slug_text runtime)) = ''content_scout''
     \<and> upd_topic_context (update (handoff_to_scout task_text slug_text runtime))
         = [(''task'', PStr task_text), (''topic_slug'', PStr slug_text)]
     \<and> last (upd_messages (update (handoff_to_scout task_text slug_text runtime)))
         = ToolMessage (''Transferring to ContentScout: '' @ task_text @ '' (topic: ''
                          @ slug_text @ '')'') (tool_call_id runtime)"
    by (simp add: handoff_to_scout_def handoff_messages_last)
  have super: "upd_active_agent (update (handoff_to_supervisor summary_text runtime)) = ''supervisor''
     \<and> upd_topic_context (update (handoff_to_supervisor summary_text runtime)) = []
     \<and> last (upd_messages (update (handoff_to_supervisor summary_text runtime)))
         = ToolMessage (''TopicManager completed: '' @ summary_text) (tool_call_id runtime)"
    by (simp add: handoff_to_supervisor_def handoff_messages_last)
  have invoke: "content_scout_invoke today topics_dir model search_evaluate state resume
         = Returned (upd, written)
       \<longrightarrow> upd_active_agent upd = ''supervisor'' \<and> upd_topic_context upd = []
           \<and> (\<exists>s. upd_messages upd = [AIMessage s []])
           \<and> active_agent (apply_update add_messages state upd) = Some ''supervisor''
           \<and> topic_context (apply_update add_messages state upd) = Some []"
    using content_scout_invoke_returned [of today topics_dir model search_evaluate state resume
        upd written]
    by (simp add: apply_update_def)
  have every: "\<forall>cmd \<in> {handoff_to_topics task_text runtime,
                handoff_to_scout task_text slug_text runtime,
                handoff_to_supervisor summary_text runtime}.
         upd_active_agent (update cmd) \<in> set agent_names
         \<and> goto cmd = ''agent'' \<and> graph cmd = PARENT
         \<and> active_agent (apply_update add_messages outer (update cmd))
             = Some (upd_active_agent (update cmd))
         \<and> topic_context (apply_update add_messages outer (update cmd))
             = Some (upd_topic_context (update cmd))
         \<and> messages (apply_update add_messages outer (update cmd))
             = add_messages (messages outer) (upd_messages (update cmd))"
    by (simp add: handoff_to_topics_def handoff_to_scout_def handoff_to_supervisor_def
        agent_names_def apply_update_def)
  from topics scout super invoke every show ?thesis by blast
qed

theorem handoff_invariant_witness:
  "update (handoff_to_scout ''find articles'' ''ai-safety'' example_runtime)
     = \<lparr>upd_active_agent = ''content_scout'',
        upd_messages = [AIMessage [] [''call_1''],
                        ToolMessage ''Transferring to ContentScout: find articles (topic: ai-safety)''
                          ''call_1''],
        upd_topic_context = [(''task'', PStr ''find articles''), (''topic_slug'', PStr ''ai-safety'')]\<rparr>
   \<and> (\<exists>upd written.
        content_scout_invoke ''2025-06-01'' example_saved example_sure example_stage
          example_outer None = Returned (upd, written)
        \<and> upd_active_agent upd = ''supervisor'' \<and> upd_topic_context upd = []
        \<and> active_agent (apply_update (@) example_outer upd) = Some ''supervisor''
        \<and> topic_context (apply_update (@) example_outer upd) = Some [])"
proof -
  have cmd: "update (handoff_to_scout ''find articles'' ''ai-safety'' example_runtime)
     = \<lparr>upd_active_agent = ''content_scout'',
        upd_messages = [AIMessage [] [''call_1''],
                        ToolMessage ''Transferring to ContentScout: find articles (topic: ai-safety)''
                          ''call_1''],
        upd_topic_context = [(''task'', PStr ''find articles''), (''topic_slug'', PStr ''ai-safety'')]\<rparr>"
    by (simp add: handoff_to_scout_def handoff_messages_def last_ai_message_def
        example_runtime_def)
  have "\<exists>upd written.
        content_scout_invoke ''2025-06-01'' example_saved example_sure example_stage
          example_outer None = Returned (upd, written)"
    by (simp add: content_scout_invoke_def scout_graph_def resolve_topic_def
        get_available_topics_def example_sure_def example_stage_def example_outer_def
        load_context_def save_articles_def Let_def add_new_eq state_get_def dict_get_def
        dict_get_default_def article_new_def example_saved_def load_existing_def read_links_def find_dir_def
        write_links_def new_link_def split: prod.splits)
  then obtain upd written where run:
    "content_scout_invoke ''2025-06-01'' example_saved example_sure example_stage
          example_outer None = Returned (upd, written)"
    by blast
  from handoff_invariant [where today = "''2025-06-01''" and topics_dir = example_saved
      and model = example_sure and search_evaluate = example_stage and state = example_outer
      and resume = None and upd = upd and written = written and add_messages = "(@)"] run
  have "upd_active_agent upd = ''supervisor'' \<and> upd_topic_context upd = []
        \<and> active_agent (apply_update (@) example_outer upd) = Some ''supervisor''
        \<and> topic_context (apply_update (@) example_outer upd) = Some []"
    by blast
  with run cmd show ?thesis by blast
qed

section \<open>The web search tool: results\<close>

text \<open>
  The two loops keep this invariant: the URLs of the hits among the results are distinct
  and all in the set of seen URLs. The results only grow, at their end.
\<close>

lemma hit_urls_append: "hit_urls (xs @ ys) = hit_urls xs @ hit_urls ys"
  by (induction xs rule: hit_urls.induct) simp_all

lemma scan_hits_invariant:
  assumes "scan_hits netloc hits seen results = (seen', results', raised)"
    and "distinct (hit_urls results)"
    and "set (hit_urls results) \<subseteq> seen"
  shows "distinct (hit_urls results') \<and> set (hit_urls results') \<subseteq> seen'"
  using assms
proof (induction netloc hits seen results rule: scan_hits.induct)
  case (1 netloc seen_urls results)
  then show ?case by simp
next
  case (2 netloc r rest seen_urls results)
  show ?case
  proof (cases "dict_get r ''url''")
    case PNone
    with 2 show ?thesis by simp
  next
    case (PStr url)
    show ?thesis
    proof (cases "url \<noteq> [] \<and> url \<notin> seen_urls")
      case False
      with 2 PStr show ?thesis by auto
    next
      case True
      show ?thesis
      proof (cases "netloc url")
        case (Inl msg)
        with 2 PStr True show ?thesis by auto
      next
        case (Inr domain)
        show ?thesis
        proof (cases "dict_get_default r ''content'' (PStr '''')")
          case PNone
          with 2 PStr True Inr show ?thesis by auto
        next
          case body: (PStr body)
          let ?hit = "Hit (py_str (dict_get_default r ''title'' (PStr ''No title''))) domain url
                        (take 300 body)"
          from "2.prems" PStr True Inr body
          have run: "scan_hits netloc rest (insert url seen_urls) (results @ [?hit])
                       = (seen', results', raised)"
            by simp
          from "2.prems" True have d: "distinct (hit_urls (results @ [?hit]))"
            by (auto simp: hit_urls_append)
          from "2.prems" have s: "set (hit_urls (results @ [?hit])) \<subseteq> insert url seen_urls"
            by (auto simp: hit_urls_append)
          from PStr True Inr body run d s show ?thesis
            by (intro "2.IH"(2)) auto
        qed
      qed
    qed
  qed
qed

lemma search_all_invariant:
  assumes "distinct (hit_urls results)" and "set (hit_urls results) \<subseteq> seen"
  shows "distinct (hit_urls (search_all tavily netloc queries seen results))"
  using assms
proof (induction queries arbitrary: seen results)
  case Nil
  then show ?case by simp
next
  case (Cons query rest)
  show ?case
  proof (cases "tavily query")
    case (Inl msg)
    from Cons.prems have "distinct (hit_urls (results @ [Failure query msg]))"
      and "set (hit_urls (results @ [Failure query msg])) \<subseteq> seen"
      by (simp_all add: hit_urls_append)
    then have "distinct (hit_urls (search_all tavily netloc rest seen
                  (results @ [Failure query msg])))"
      by (rule Cons.IH)
    with Inl show ?thesis by simp
  next
    case (Inr hits)
    obtain seen' results' raised
      where scan: "scan_hits netloc hits seen results = (seen', results', raised)"
      by (cases "scan_hits netloc hits seen results") auto
    from scan Cons.prems
    have inv: "distinct (hit_urls results') \<and> set (hit_urls results') \<subseteq> seen'"
      by (rule scan_hits_invariant)
    show ?thesis
    proof (cases raised)
      case None
      from inv have "distinct (hit_urls (search_all tavily netloc rest seen' results'))"
        by (intro Cons.IH) auto
      with Inr scan None show ?thesis by simp
    next
      case (Some msg)
      from inv have "distinct (hit_urls (search_all tavily netloc rest seen'
                        (results' @ [Failure query msg])))"
        by (intro Cons.IH) (auto simp: hit_urls_append)
      with Inr scan Some show ?thesis by simp
    qed
  qed
qed

lemma scan_hits_extends:
  "scan_hits netloc hits seen results = (seen', results', raised)
     \<Longrightarrow> \<exists>more. results' = results @ more"
proof (induction netloc hits seen results rule: scan_hits.induct)
  case (1 netloc seen_urls results)
  then show ?case by simp
next
  case (2 netloc r rest seen_urls results)
  then show ?case
    by (fastforce split: pyval.splits if_splits sum.splits)
qed

lemma search_all_extends:
  "\<exists>more. search_all tavily netloc queries seen results = results @ more"
proof (induction queries arbitrary: seen results)
  case Nil
  then show ?case by simp
next
  case (Cons query rest)
  show ?case
  proof (cases "tavily query")
    case (Inl msg)
    from Cons.IH [of seen "results @ [Failure query msg]"] Inl show ?thesis by auto
  next
    case (Inr hits)
    obtain seen' results' raised
      where scan: "scan_hits netloc hits seen results = (seen', results', raised)"
      by (cases "scan_hits netloc hits seen results") auto
    then obtain more where more: "results' = results @ more"
      using scan_hits_extends by blast
    show ?thesis
    proof (cases raised)
      case None
      from Cons.IH [of seen' results'] Inr scan None more show ?thesis by auto
    next
      case (Some msg)
      from Cons.IH [of seen' "results' @ [Failure query msg]"] Inr scan Some more
      show ?thesis by auto
    qed
  qed
qed

text \<open>
  Claim C10. The text \<open>tavily_search\<close> returns is the rendering of its list of
  results, one block for each hit, whose \<open>URL:\<close> line names the hit's URL, and one
  line for each query that failed. Whatever the search service and the URL parser do, and
  whatever the queries, no two blocks of hits name the same URL: a URL that several
  queries return gets one block. A query on which the service raises adds its error line
  and nothing else, the queries after it are processed as they would have been, with the
  same set of seen URLs, and the results before it and its line stay in the list. When
  the exception comes while the hits of a query are taken, the error line follows the
  hits taken so far, and the later queries are processed as well.
\<close>

theorem search_urls_once:
  "distinct (hit_urls (search_results tavily netloc queries))
   \<and> (tavily query = Inl text \<longrightarrow>
        search_all tavily netloc (query # rest) seen results
          = search_all tavily netloc rest seen (results @ [Failure query text])
        \<and> (\<exists>more. search_all tavily netloc (query # rest) seen results
                     = results @ [Failure query text] @ more))
   \<and> (api_key = Some key \<and> key \<noteq> [] \<and> search_results tavily netloc queries \<noteq> [] \<longrightarrow>
        tavily_search api_key tavily netloc queries
          = ''Found '' @ str_of_nat (length (search_results tavily netloc queries))
              @ '' results:'' @ nl @ nl
              @ join (nl @ nl) (map render (search_results tavily netloc queries)))
   \<and> (tavily query = Inr hits
        \<and> scan_hits netloc hits seen results = (seen', results', Some raised) \<longrightarrow>
        search_all tavily netloc (query # rest) seen results
          = search_all tavily netloc rest seen' (results' @ [Failure query raised]))"
proof -
  have once: "distinct (hit_urls (search_results tavily netloc queries))"
    unfolding search_results_def by (rule search_all_invariant) simp_all
  have failed: "tavily query = Inl text \<longrightarrow>
        search_all tavily netloc (query # rest) seen results
          = search_all tavily netloc rest seen (results @ [Failure query text])
        \<and> (\<exists>more. search_all tavily netloc (query # rest) seen results
                     = results @ [Failure query text] @ more)"
  proof
    assume f: "tavily query = Inl text"
    then have step: "search_all tavily netloc (query # rest) seen results
          = search_all tavily netloc rest seen (results @ [Failure query text])"
      by simp
    obtain more where "search_all tavily netloc rest seen (results @ [Failure query text])
        = (results @ [Failure query text]) @ more"
      using search_all_extends by blast
    with step show "search_all tavily netloc (query # rest) seen results
          = search_all tavily netloc rest seen (results @ [Failure query text])
        \<and> (\<exists>more. search_all tavily netloc (query # rest) seen results
                     = results @ [Failure query text] @ more)"
      by simp
  qed
  have rendered: "api_key = Some key \<and> key \<noteq> [] \<and> search_results tavily netloc queries \<noteq> [] \<longrightarrow>
        tavily_search api_key tavily netloc queries
          = ''Found '' @ str_of_nat (length (search_results tavily netloc queries))
              @ '' results:'' @ nl @ nl
              @ join (nl @ nl) (map render (search_results tavily netloc queries))"
    by (simp add: tavily_search_def Let_def)
  have inside: "tavily query = Inr hits
        \<and> scan_hits netloc hits seen results = (seen', results', Some raised) \<longrightarrow>
        search_all tavily netloc (query # rest) seen results
          = search_all tavily netloc rest seen' (results' @ [Failure query raised])"
    by simp
  from once failed rendered inside show ?thesis by blast
qed

theorem search_urls_once_witness:
  "search_results example_service example_netloc [''agents'', ''down'', ''patterns'']
     = [Hit ''A'' ''a.example'' ''https://a.example/1'' ''on a'',
        Hit ''B'' ''b.example'' ''https://b.example/2'' ''on b'',
        Failure ''down'' ''timed out'',
        Hit ''C'' ''c.example'' ''https://c.example/3'' ''on c'']
   \<and> distinct (hit_urls (search_results example_service example_netloc
         [''agents'', ''down'', ''patterns'']))
   \<and> search_all example_service example_netloc [''down'', ''patterns''] {} []
       = search_all example_service example_netloc [''patterns''] {} [Failure ''down'' ''timed out'']
   \<and> tavily_search (Some ''key'') example_service example_netloc [''down'']
       = ''Found 1 results:'' @ nl @ nl @ ''Search failed for '' @ [CHR 0x27] @ ''down''
           @ [CHR 0x27] @ '': timed out''"
proof -
  have down: "example_service ''down'' = Inl ''timed out''"
    by (simp add: example_service_def)
  have blocks: "search_results example_service example_netloc [''agents'', ''down'', ''patterns'']
     = [Hit ''A'' ''a.example'' ''https://a.example/1'' ''on a'',
        Hit ''B'' ''b.example'' ''https://b.example/2'' ''on b'',
        Failure ''down'' ''timed out'',
        Hit ''C'' ''c.example'' ''https://c.example/3'' ''on c'']"
    by (simp add: search_results_def example_service_def example_netloc_def dict_get_def
        dict_get_default_def)
  have one: "search_results example_service example_netloc [''down'']
      = [Failure ''down'' ''timed out'']"
    by (simp add: search_results_def down)
  have digits: "str_of_nat 1 = ''1''"
    by (simp add: str_of_nat.simps)
  note t = search_urls_once [of example_service example_netloc _ "''down''" "''timed out''"
      "[''patterns'']" "{}" "[]" "Some ''key''" "''key''"]
  from t [of "[''agents'', ''down'', ''patterns'']"] down
  have a: "distinct (hit_urls (search_results example_service example_netloc
         [''agents'', ''down'', ''patterns'']))
     \<and> search_all example_service example_netloc [''down'', ''patterns''] {} []
       = search_all example_service example_netloc [''patterns''] {} [Failure ''down'' ''timed out'']"
    by simp
  from t [of "[''down'']"] one digits
  have b: "tavily_search (Some ''key'') example_service example_netloc [''down'']
       = ''Found 1 results:'' @ nl @ nl @ ''Search failed for '' @ [CHR 0x27] @ ''down''
           @ [CHR 0x27] @ '': timed out''"
    by simp
  from blocks a b show ?thesis by blast
qed

end
